theory Spec2Isabelle
  imports Complex_Main "HOL-Library.Multiset" "HOL-Library.Sublist" "HOL-Library.AList"
begin

section \<open>The kv table and the statements run against it\<close>

text \<open>
  The disk store keeps one SQLite table,
  \<^verbatim>\<open>kv (key TEXT PRIMARY KEY, value TEXT NOT NULL, expire_at REAL)\<close>.
  A row of the model carries the three columns and the hidden \<open>rowid\<close> that SQLite gives
  every row of such a table; the source orders by it in \<^verbatim>\<open>_sqlite_evict\<close>. The state a
  connection reads and writes is the list of rows of the table, in no particular order.
  Python floats (\<^verbatim>\<open>time.time()\<close>, the \<open>expire_at\<close> column) are real numbers here, Python
  integers are \<open>int\<close>. A text is a string that may hold any character, the NUL character
  included.
\<close>

record row =
  rowid :: nat
  row_key :: string
  row_value :: string
  expire_at :: "real option"

type_synonym table = "row list"

text \<open>
  A row inserted without an explicit rowid gets one more than the largest rowid in the
  table (1 in an empty table).
\<close>

definition max_rowid :: "table \<Rightarrow> nat" where
  "max_rowid conn = foldr (\<lambda>r m. max (rowid r) m) conn 0"

text \<open>
  \<^verbatim>\<open>INSERT OR REPLACE INTO kv (key, value, expire_at) VALUES (?, ?, ?)\<close>: the new rowid
  is chosen, every row that conflicts on the primary key is deleted, and the new row is
  stored.
\<close>

definition insert_or_replace :: "table \<Rightarrow> string \<Rightarrow> string \<Rightarrow> real option \<Rightarrow> table" where
  "insert_or_replace conn k v e =
     filter (\<lambda>r. row_key r \<noteq> k) conn
       @ [\<lparr>rowid = max_rowid conn + 1, row_key = k, row_value = v, expire_at = e\<rparr>]"

text \<open>\<^verbatim>\<open>SELECT value, expire_at FROM kv WHERE key = ?\<close> followed by \<^verbatim>\<open>fetchone()\<close>.\<close>

definition select_value_expire_at :: "table \<Rightarrow> string \<Rightarrow> (string \<times> real option) option" where
  "select_value_expire_at conn k =
     (case find (\<lambda>r. row_key r = k) conn of
        None \<Rightarrow> None
      | Some r \<Rightarrow> Some (row_value r, expire_at r))"

text \<open>
  The SQL function \<^verbatim>\<open>LENGTH\<close> of a text value: SQLite counts the characters before the
  first NUL character, and all of them when there is none.
\<close>

definition sql_length :: "string \<Rightarrow> nat" where
  "sql_length s = length (takeWhile (\<lambda>ch. ch \<noteq> CHR 0x00) s)"

text \<open>\<^verbatim>\<open>SELECT COALESCE(SUM(LENGTH(key) + LENGTH(value)), 0) FROM kv\<close>.\<close>

definition sum_length :: "table \<Rightarrow> int" where
  "sum_length conn = (\<Sum>r\<leftarrow>conn. int (sql_length (row_key r)) + int (sql_length (row_value r)))"

text \<open>\<^verbatim>\<open>SELECT COUNT(*) FROM kv\<close>.\<close>

definition count_rows :: "table \<Rightarrow> int" where
  "count_rows conn = int (length conn)"

text \<open>\<^verbatim>\<open>DELETE FROM kv WHERE expire_at IS NOT NULL AND expire_at < ?\<close>.\<close>

definition is_expired :: "real \<Rightarrow> row \<Rightarrow> bool" where
  "is_expired now r = (case expire_at r of None \<Rightarrow> False | Some e \<Rightarrow> e < now)"

definition delete_expired :: "table \<Rightarrow> real \<Rightarrow> table" where
  "delete_expired conn now = filter (\<lambda>r. \<not> is_expired now r) conn"

text \<open>
  \<^verbatim>\<open>DELETE FROM kv WHERE rowid IN (SELECT rowid FROM kv ORDER BY rowid ASC LIMIT ?)\<close>:
  the subquery yields the first \<open>n\<close> rowids in ascending order (all of them for a
  negative limit), the statement deletes the rows that carry one of them.
\<close>

definition select_rowid_asc_limit :: "table \<Rightarrow> int \<Rightarrow> nat list" where
  "select_rowid_asc_limit conn n =
     (if n < 0 then sort (map rowid conn) else take (nat n) (sort (map rowid conn)))"

definition delete_rowid_asc_limit :: "table \<Rightarrow> int \<Rightarrow> table" where
  "delete_rowid_asc_limit conn n =
     filter (\<lambda>r. rowid r \<notin> set (select_rowid_asc_limit conn n)) conn"

section \<open>The functions of store.py\<close>

text \<open>
  Each function takes the table its connection is attached to and returns the table after
  its commit together with its return value. The reading of the clock is an argument.
\<close>

definition sqlite_get_with_expire :: "table \<Rightarrow> string \<Rightarrow> string option \<times> real option" where
  "sqlite_get_with_expire conn k =
     (case select_value_expire_at conn k of
        None \<Rightarrow> (None, None)
      | Some (v, e) \<Rightarrow> (Some v, e))"

definition sqlite_set :: "real \<Rightarrow> table \<Rightarrow> string \<Rightarrow> string \<Rightarrow> real option \<Rightarrow> table \<times> bool" where
  "sqlite_set time_now conn k v expire =
     (let expire_at = (case expire of None \<Rightarrow> None | Some ttl \<Rightarrow> Some (time_now + ttl))
      in (insert_or_replace conn k v expire_at, True))"

definition sqlite_delete :: "table \<Rightarrow> string \<Rightarrow> table \<times> bool" where
  "sqlite_delete conn k =
     (let rowcount = int (length (filter (\<lambda>r. row_key r = k) conn))
      in (filter (\<lambda>r. row_key r \<noteq> k) conn, rowcount > 0))"

definition sqlite_clear :: "table \<Rightarrow> table \<times> int" where
  "sqlite_clear conn = ([], int (length conn))"

text \<open>
  The trimming loop of \<^verbatim>\<open>_sqlite_evict\<close>. Its state is the table and the variable
  \<open>total_size\<close>; the loop leaves through its condition or through the \<^verbatim>\<open>break\<close>.
\<close>

function evict_loop :: "table \<Rightarrow> int \<Rightarrow> int \<Rightarrow> table" where
  "evict_loop conn max_size total_size =
     (if total_size > max_size then
        (let total_rows = count_rows conn in
         if total_rows = 0 then conn
         else
           (let to_delete = max 1 (total_rows div 10);
                conn' = delete_rowid_asc_limit conn to_delete
            in evict_loop conn' max_size (sum_length conn')))
      else conn)"
  by pat_completeness auto

lemma hd_sort_in_take:
  assumes "xs \<noteq> []" and "0 < n"
  shows "Min (set xs) \<in> set (take n (sort xs))"
proof -
  from assms(1) have ne: "sort xs \<noteq> []"
    by (metis length_sort length_0_conv)
  have "hd (sort xs) = Min (set xs)"
  proof (rule sym, rule Min_eqI)
    show "finite (set xs)" by simp
    show "hd (sort xs) \<in> set xs" using ne by (metis hd_in_set set_sort)
    fix y assume "y \<in> set xs"
    then have "y \<in> set (sort xs)" by simp
    with ne show "hd (sort xs) \<le> y"
      by (cases "sort xs") (use sorted_sort [of xs] in auto)
  qed
  moreover from ne assms(2) have "hd (sort xs) \<in> set (take n (sort xs))"
    by (cases "sort xs"; cases n) auto
  ultimately show ?thesis by simp
qed

lemma delete_rowid_asc_limit_shrinks:
  assumes "conn \<noteq> []" and "0 < n"
  shows "length (delete_rowid_asc_limit conn n) < length conn"
proof -
  from assms(1) have "map rowid conn \<noteq> []" by simp
  with assms(2) have "Min (set (map rowid conn)) \<in> set (take (nat n) (sort (map rowid conn)))"
    by (intro hd_sort_in_take) auto
  with assms(2) have m: "Min (set (map rowid conn)) \<in> set (select_rowid_asc_limit conn n)"
    by (simp add: select_rowid_asc_limit_def)
  from assms(1) have "Min (set (map rowid conn)) \<in> set (map rowid conn)"
    by (intro Min_in) auto
  then obtain r where "r \<in> set conn" "rowid r = Min (set (map rowid conn))"
    by auto
  with m show ?thesis
    unfolding delete_rowid_asc_limit_def by (intro length_filter_less [of r]) auto
qed

termination evict_loop
proof (relation "measure (\<lambda>(conn, max_size, total_size). length conn)")
  show "wf (measure (\<lambda>(conn, max_size, total_size). length conn))" by simp
next
  fix conn :: table and max_size total_size total_rows to_delete :: int and conn' :: table
  assume "total_rows = count_rows conn" "total_rows \<noteq> 0"
    "to_delete = max 1 (total_rows div 10)"
    "conn' = delete_rowid_asc_limit conn to_delete"
  then show "((conn', max_size, sum_length conn'), (conn, max_size, total_size))
             \<in> measure (\<lambda>(conn, max_size, total_size). length conn)"
    using delete_rowid_asc_limit_shrinks [of conn to_delete]
    by (auto simp: count_rows_def)
qed

declare evict_loop.simps [simp del]

definition sqlite_evict :: "real \<Rightarrow> table \<Rightarrow> int \<Rightarrow> table" where
  "sqlite_evict time_now conn max_size =
     (let conn1 = delete_expired conn time_now;
          total_size = sum_length conn1
      in evict_loop conn1 max_size total_size)"

section \<open>The collaborators outside these files\<close>

text \<open>
  Modelled from the spec: \<^verbatim>\<open>compound_key\<close> of \<^verbatim>\<open>key_value.shared.compound\<close>, whose
  source is not among the files verified here. The spec describes the combined key as
  \<open>collection + separator + key\<close> and shows it as \<^verbatim>\<open>collection::key\<close>; the test of the
  disk store reads the row \<^verbatim>\<open>test::test_key\<close>.
\<close>

definition separator :: string where
  "separator = ''::''"

definition compound_key :: "string \<Rightarrow> string \<Rightarrow> string" where
  "compound_key collection k = collection @ separator @ k"

text \<open>
  Modelled from the spec: \<^verbatim>\<open>ManagedEntry\<close> of \<^verbatim>\<open>key_value.shared.managed_entry\<close>, an
  entry that carries a value payload, a creation time and an optional expiration time.
  The payload type \<open>'v\<close> and the type \<open>'dt\<close> of \<^verbatim>\<open>datetime\<close> values are left open. The
  serialization adapter (\<^verbatim>\<open>load_json\<close>, \<^verbatim>\<open>dump_json\<close>), the property \<^verbatim>\<open>ttl\<close> of an entry
  and \<^verbatim>\<open>datetime.fromtimestamp\<close> are arguments of the functions that call them.
\<close>

record ('v, 'dt) managed_entry =
  entry_value :: 'v
  created_at :: "'dt option"
  expires_at :: "'dt option"

text \<open>The truth value Python gives a \<^verbatim>\<open>float | None\<close> in a condition.\<close>

definition float_truthy :: "real option \<Rightarrow> bool" where
  "float_truthy x = (case x of None \<Rightarrow> False | Some e \<Rightarrow> e \<noteq> 0)"

section \<open>Directories, database files and connections\<close>

text \<open>
  A path is the list of its components. The world holds the directories that exist, the
  kv table of every database file (an absent file reads as the empty table that
  \<^verbatim>\<open>CREATE TABLE IF NOT EXISTS\<close> leaves), the connections ever made, each with the file
  it is attached to and whether it is still open, and the current directory. A
  connection is named by its position in that list. Failures of the file system and of
  SQLite itself are not modelled.
\<close>

type_synonym path = "string list"

type_synonym conn_id = nat

record connection =
  conn_path :: path
  is_open :: bool

record world =
  dirs :: "path set"
  files :: "path \<Rightarrow> table"
  conns :: "connection list"
  cwd :: path

datatype error = ValueError string | KeyError string | AttributeError | ProgrammingError

definition DB_FILENAME :: string where
  "DB_FILENAME = ''store.db''"

definition path_exists :: "world \<Rightarrow> path \<Rightarrow> bool" where
  "path_exists w p = (p \<in> dirs w)"

text \<open>\<^verbatim>\<open>Path.mkdir(parents=True, exist_ok=True)\<close>: the directory and every missing ancestor.\<close>

definition mkdir_parents :: "world \<Rightarrow> path \<Rightarrow> world" where
  "mkdir_parents w p = w\<lparr>dirs := dirs w \<union> set (prefixes p)\<rparr>"

text \<open>\<^verbatim>\<open>path / segment\<close> for a segment without a separator; an empty segment adds nothing.\<close>

definition path_join :: "path \<Rightarrow> string \<Rightarrow> path" where
  "path_join p seg = (if seg = [] then p else p @ [seg])"

definition create_connection :: "world \<Rightarrow> path \<Rightarrow> world \<times> conn_id" where
  "create_connection w db_path =
     (w\<lparr>conns := conns w @ [\<lparr>conn_path = db_path, is_open = True\<rparr>]\<rparr>, length (conns w))"

definition sqlite_close :: "world \<Rightarrow> conn_id \<Rightarrow> world" where
  "sqlite_close w c =
     (if c < length (conns w)
      then w\<lparr>conns := (conns w)[c := (conns w ! c)\<lparr>is_open := False\<rparr>]\<rparr>
      else w)"

definition conn_is_open :: "world \<Rightarrow> conn_id \<Rightarrow> bool" where
  "conn_is_open w c = (c < length (conns w) \<and> is_open (conns w ! c))"

text \<open>The table a statement on connection \<open>c\<close> works on; a closed connection refuses.\<close>

definition conn_table :: "world \<Rightarrow> conn_id \<Rightarrow> error + table" where
  "conn_table w c =
     (if conn_is_open w c then Inr (files w (conn_path (conns w ! c)))
      else Inl ProgrammingError)"

definition commit_table :: "world \<Rightarrow> conn_id \<Rightarrow> table \<Rightarrow> world" where
  "commit_table w c tbl = w\<lparr>files := (files w)(conn_path (conns w ! c) := tbl)\<rparr>"

section \<open>DiskStore\<close>

datatype callback = Close_conn | Sync_close

datatype directory_arg = PathArg path | StrArg string

text \<open>A \<^verbatim>\<open>Path\<close> is always true in a condition, a \<^verbatim>\<open>str\<close> is true unless empty.\<close>

definition directory_truthy :: "directory_arg \<Rightarrow> bool" where
  "directory_truthy d = (case d of PathArg p \<Rightarrow> True | StrArg s \<Rightarrow> s \<noteq> [])"

text \<open>\<^verbatim>\<open>Path(directory)\<close>; how a string splits into components is the argument \<open>parse\<close>.\<close>

definition Path :: "(string \<Rightarrow> path) \<Rightarrow> directory_arg \<Rightarrow> path" where
  "Path parse d = (case d of PathArg p \<Rightarrow> p | StrArg s \<Rightarrow> parse s)"

record disk_store =
  ds_conn :: "conn_id option"
  ds_client_provided_by_user :: bool
  ds_auto_create :: bool
  ds_max_size :: "int option"
  ds_exit_stack :: "callback list"

text \<open>
  \<^verbatim>\<open>DiskStore.__init__\<close>. The attribute \<^verbatim>\<open>_conn\<close> stays unset (\<open>None\<close>) when neither
  branch of \<^verbatim>\<open>if connection: ... elif directory: ...\<close> is taken. The message of the
  third error names the directory in the source; the model keeps the fixed part of it.
\<close>

definition DiskStore_init ::
  "(string \<Rightarrow> path) \<Rightarrow> world \<Rightarrow> conn_id option \<Rightarrow> directory_arg option \<Rightarrow> int option \<Rightarrow> bool
     \<Rightarrow> (error + disk_store) \<times> world" where
  "DiskStore_init parse w connection directory max_size auto_create =
     (if connection \<noteq> None \<and> directory \<noteq> None then
        (Inl (ValueError ''Provide only one of connection or directory''), w)
      else if connection = None \<and> directory = None then
        (Inl (ValueError ''Either connection or directory must be provided''), w)
      else
        (let client_provided = (connection \<noteq> None);
             self = \<lparr>ds_conn = None, ds_client_provided_by_user = client_provided,
                     ds_auto_create = auto_create, ds_max_size = max_size,
                     ds_exit_stack = []\<rparr>
         in case connection of
              Some c \<Rightarrow> (Inr (self\<lparr>ds_conn := Some c\<rparr>), w)
            | None \<Rightarrow>
               (case directory of
                  None \<Rightarrow> (Inr self, w)
                | Some d \<Rightarrow>
                   if directory_truthy d then
                     (let dir = Path parse d in
                      if \<not> path_exists w dir \<and> \<not> ds_auto_create self then
                        (Inl (ValueError ''Directory does not exist. Either create the directory manually or set auto_create=True.''), w)
                      else
                        (let w1 = (if \<not> path_exists w dir then mkdir_parents w dir else w);
                             (w2, c) = create_connection w1 (path_join dir DB_FILENAME)
                         in (Inr (self\<lparr>ds_conn := Some c\<rparr>), w2)))
                   else (Inr self, w))))"

definition DiskStore_setup :: "disk_store \<Rightarrow> disk_store" where
  "DiskStore_setup self =
     (if \<not> ds_client_provided_by_user self
      then self\<lparr>ds_exit_stack := Close_conn # ds_exit_stack self\<rparr>
      else self)"

definition DiskStore_del :: "world \<Rightarrow> disk_store \<Rightarrow> world" where
  "DiskStore_del w self =
     (if \<not> ds_client_provided_by_user self \<and> ds_conn self \<noteq> None
      then sqlite_close w (the (ds_conn self))
      else w)"

text \<open>
  Modelled from the spec: the teardown of \<^verbatim>\<open>BaseContextManagerStore\<close>, whose source is
  not among the files verified here. The spec has the setup hook register a close
  callback; teardown runs the callbacks of the exit stack, the last registered first.
  The callback of the disk store is \<^verbatim>\<open>lambda: _sqlite_close(conn=self._conn)\<close>; where
  \<^verbatim>\<open>_conn\<close> is unset the callback raises and closes nothing.
\<close>

definition DiskStore_callback :: "disk_store \<Rightarrow> callback \<Rightarrow> world \<Rightarrow> world" where
  "DiskStore_callback self cb w =
     (case cb of
        Close_conn \<Rightarrow> (case ds_conn self of Some c \<Rightarrow> sqlite_close w c | None \<Rightarrow> w)
      | Sync_close \<Rightarrow> w)"

definition DiskStore_teardown :: "world \<Rightarrow> disk_store \<Rightarrow> world" where
  "DiskStore_teardown w self = fold (DiskStore_callback self) (ds_exit_stack self) w"

text \<open>
  The part of \<^verbatim>\<open>_get_managed_entry\<close> that both stores share: from the pair that
  \<^verbatim>\<open>_sqlite_get_with_expire\<close> returned to the entry.
\<close>

definition entry_of_row ::
  "(string \<Rightarrow> ('v, 'dt) managed_entry) \<Rightarrow> (real \<Rightarrow> 'dt) \<Rightarrow> string option \<times> real option
     \<Rightarrow> ('v, 'dt) managed_entry option" where
  "entry_of_row load_json fromtimestamp res =
     (let (managed_entry_str, expire_epoch) = res in
      case managed_entry_str of
        None \<Rightarrow> None
      | Some json_str \<Rightarrow>
         (let managed_entry = load_json json_str in
          if float_truthy expire_epoch
          then Some (managed_entry\<lparr>expires_at := Some (fromtimestamp (the expire_epoch))\<rparr>)
          else Some managed_entry))"

definition DiskStore_get_managed_entry ::
  "(string \<Rightarrow> ('v, 'dt) managed_entry) \<Rightarrow> (real \<Rightarrow> 'dt) \<Rightarrow> world \<Rightarrow> disk_store
     \<Rightarrow> string \<Rightarrow> string \<Rightarrow> error + ('v, 'dt) managed_entry option" where
  "DiskStore_get_managed_entry load_json fromtimestamp w self k collection =
     (let combo_key = compound_key collection k in
      case ds_conn self of
        None \<Rightarrow> Inl AttributeError
      | Some c \<Rightarrow>
         (case conn_table w c of
            Inl e \<Rightarrow> Inl e
          | Inr tbl \<Rightarrow>
             Inr (entry_of_row load_json fromtimestamp (sqlite_get_with_expire tbl combo_key))))"

definition eviction_enabled :: "int option \<Rightarrow> bool" where
  "eviction_enabled max_size = (case max_size of None \<Rightarrow> False | Some m \<Rightarrow> m > 0)"

text \<open>
  \<^verbatim>\<open>_put_managed_entry\<close>; \<open>time_set\<close> and \<open>time_evict\<close> are what \<^verbatim>\<open>time.time()\<close> returns
  inside \<^verbatim>\<open>_sqlite_set\<close> and inside \<^verbatim>\<open>_sqlite_evict\<close>.
\<close>

definition put_table ::
  "real \<Rightarrow> real \<Rightarrow> int option \<Rightarrow> table \<Rightarrow> string \<Rightarrow> string \<Rightarrow> real option \<Rightarrow> table" where
  "put_table time_set time_evict max_size tbl k v expire =
     (let (tbl1, ok) = sqlite_set time_set tbl k v expire in
      if eviction_enabled max_size then sqlite_evict time_evict tbl1 (the max_size)
      else tbl1)"

definition DiskStore_put_managed_entry ::
  "(('v, 'dt) managed_entry \<Rightarrow> string \<Rightarrow> string \<Rightarrow> string) \<Rightarrow> (('v, 'dt) managed_entry \<Rightarrow> real option)
     \<Rightarrow> real \<Rightarrow> real \<Rightarrow> world \<Rightarrow> disk_store \<Rightarrow> string \<Rightarrow> string \<Rightarrow> ('v, 'dt) managed_entry
     \<Rightarrow> error + world" where
  "DiskStore_put_managed_entry dump_json ttl time_set time_evict w self k collection managed_entry =
     (let combo_key = compound_key collection k in
      case ds_conn self of
        None \<Rightarrow> Inl AttributeError
      | Some c \<Rightarrow>
         (case conn_table w c of
            Inl e \<Rightarrow> Inl e
          | Inr tbl \<Rightarrow>
             Inr (commit_table w c
                   (put_table time_set time_evict (ds_max_size self) tbl combo_key
                      (dump_json managed_entry k collection) (ttl managed_entry)))))"

definition DiskStore_delete_managed_entry ::
  "world \<Rightarrow> disk_store \<Rightarrow> string \<Rightarrow> string \<Rightarrow> error + world \<times> bool" where
  "DiskStore_delete_managed_entry w self k collection =
     (let combo_key = compound_key collection k in
      case ds_conn self of
        None \<Rightarrow> Inl AttributeError
      | Some c \<Rightarrow>
         (case conn_table w c of
            Inl e \<Rightarrow> Inl e
          | Inr tbl \<Rightarrow>
             (let (tbl', deleted) = sqlite_delete tbl combo_key
              in Inr (commit_table w c tbl', deleted))))"

section \<open>MultiDiskStore\<close>

text \<open>
  \<^verbatim>\<open>sanitize_filename\<close> belongs to the library pathvalidate and is an argument of the
  functions below. A connection factory is any function from a collection name to a
  connection; it may change the world and it may raise.
\<close>

type_synonym connection_factory = "string \<Rightarrow> world \<Rightarrow> (error + conn_id) \<times> world"

definition sanitize_collection_for_filesystem :: "(string \<Rightarrow> string) \<Rightarrow> string \<Rightarrow> string" where
  "sanitize_collection_for_filesystem sanitize_filename collection = sanitize_filename collection"

record multi_disk_store =
  mds_conn :: "(string \<times> conn_id) list"
  mds_connection_factory :: connection_factory
  mds_base_directory :: path
  mds_max_size :: "int option"
  mds_auto_create :: bool
  mds_exit_stack :: "callback list"

definition default_connection_factory ::
  "(string \<Rightarrow> string) \<Rightarrow> path \<Rightarrow> bool \<Rightarrow> connection_factory" where
  "default_connection_factory sanitize_filename base_directory auto_create collection w =
     (let sanitized_collection = sanitize_collection_for_filesystem sanitize_filename collection;
          cache_directory = path_join base_directory sanitized_collection
      in if \<not> path_exists w cache_directory \<and> \<not> auto_create then
           (Inl (ValueError ''Directory does not exist. Either create the directory manually or set auto_create=True.''), w)
         else
           (let w1 = (if \<not> path_exists w cache_directory then mkdir_parents w cache_directory
                      else w);
                (w2, c) = create_connection w1 (path_join cache_directory DB_FILENAME)
            in (Inr c, w2)))"

text \<open>
  \<^verbatim>\<open>MultiDiskStore.__init__\<close>. Paths are kept in resolved form, so \<^verbatim>\<open>resolve()\<close> changes
  nothing; a function is always true in \<^verbatim>\<open>connection_factory or default_connection_factory\<close>.
\<close>

definition MultiDiskStore_init ::
  "(string \<Rightarrow> string) \<Rightarrow> world \<Rightarrow> connection_factory option \<Rightarrow> path option \<Rightarrow> int option \<Rightarrow> bool
     \<Rightarrow> error + multi_disk_store" where
  "MultiDiskStore_init sanitize_filename w connection_factory base_directory max_size auto_create =
     (if connection_factory = None \<and> base_directory = None then
        Inl (ValueError ''Either connection_factory or base_directory must be provided'')
      else
        (let base_directory' = (case base_directory of None \<Rightarrow> cwd w | Some b \<Rightarrow> b)
         in Inr \<lparr>mds_conn = [],
                 mds_connection_factory =
                   (case connection_factory of
                      Some f \<Rightarrow> f
                    | None \<Rightarrow> default_connection_factory sanitize_filename base_directory' auto_create),
                 mds_base_directory = base_directory',
                 mds_max_size = max_size,
                 mds_auto_create = auto_create,
                 mds_exit_stack = []\<rparr>))"

definition MultiDiskStore_setup :: "multi_disk_store \<Rightarrow> multi_disk_store" where
  "MultiDiskStore_setup self = self\<lparr>mds_exit_stack := Sync_close # mds_exit_stack self\<rparr>"

text \<open>\<^verbatim>\<open>self._conn[collection] = self._connection_factory(collection)\<close>.\<close>

definition MultiDiskStore_setup_collection ::
  "world \<Rightarrow> multi_disk_store \<Rightarrow> string \<Rightarrow> (error + multi_disk_store) \<times> world" where
  "MultiDiskStore_setup_collection w self collection =
     (case mds_connection_factory self collection w of
        (Inl e, w') \<Rightarrow> (Inl e, w')
      | (Inr c, w') \<Rightarrow>
          (Inr (self\<lparr>mds_conn := AList.update collection c (mds_conn self)\<rparr>), w'))"

definition MultiDiskStore_sync_close :: "world \<Rightarrow> multi_disk_store \<Rightarrow> world" where
  "MultiDiskStore_sync_close w self = fold (\<lambda>c w'. sqlite_close w' c) (map snd (mds_conn self)) w"

definition MultiDiskStore_del :: "world \<Rightarrow> multi_disk_store \<Rightarrow> world" where
  "MultiDiskStore_del w self = MultiDiskStore_sync_close w self"

text \<open>
  Modelled from the spec: teardown runs the callbacks of the exit stack, as for the
  disk store; the callback registered by \<^verbatim>\<open>_setup\<close> is \<^verbatim>\<open>self._sync_close\<close>.
\<close>

definition MultiDiskStore_callback :: "multi_disk_store \<Rightarrow> callback \<Rightarrow> world \<Rightarrow> world" where
  "MultiDiskStore_callback self cb w =
     (case cb of Sync_close \<Rightarrow> MultiDiskStore_sync_close w self | Close_conn \<Rightarrow> w)"

definition MultiDiskStore_teardown :: "world \<Rightarrow> multi_disk_store \<Rightarrow> world" where
  "MultiDiskStore_teardown w self = fold (MultiDiskStore_callback self) (mds_exit_stack self) w"

text \<open>\<^verbatim>\<open>self._conn[collection]\<close> raises \<^verbatim>\<open>KeyError\<close> for a collection that was never set up.\<close>

definition MultiDiskStore_conn :: "multi_disk_store \<Rightarrow> string \<Rightarrow> error + conn_id" where
  "MultiDiskStore_conn self collection =
     (case map_of (mds_conn self) collection of
        None \<Rightarrow> Inl (KeyError collection)
      | Some c \<Rightarrow> Inr c)"

definition MultiDiskStore_get_managed_entry ::
  "(string \<Rightarrow> ('v, 'dt) managed_entry) \<Rightarrow> (real \<Rightarrow> 'dt) \<Rightarrow> world \<Rightarrow> multi_disk_store
     \<Rightarrow> string \<Rightarrow> string \<Rightarrow> error + ('v, 'dt) managed_entry option" where
  "MultiDiskStore_get_managed_entry load_json fromtimestamp w self k collection =
     (case MultiDiskStore_conn self collection of
        Inl e \<Rightarrow> Inl e
      | Inr c \<Rightarrow>
         (case conn_table w c of
            Inl e \<Rightarrow> Inl e
          | Inr tbl \<Rightarrow>
             Inr (entry_of_row load_json fromtimestamp (sqlite_get_with_expire tbl k))))"

definition MultiDiskStore_put_managed_entry ::
  "(('v, 'dt) managed_entry \<Rightarrow> string \<Rightarrow> string \<Rightarrow> string) \<Rightarrow> (('v, 'dt) managed_entry \<Rightarrow> real option)
     \<Rightarrow> real \<Rightarrow> real \<Rightarrow> world \<Rightarrow> multi_disk_store \<Rightarrow> string \<Rightarrow> string \<Rightarrow> ('v, 'dt) managed_entry
     \<Rightarrow> error + world" where
  "MultiDiskStore_put_managed_entry dump_json ttl time_set time_evict w self k collection managed_entry =
     (case MultiDiskStore_conn self collection of
        Inl e \<Rightarrow> Inl e
      | Inr c \<Rightarrow>
         (case conn_table w c of
            Inl e \<Rightarrow> Inl e
          | Inr tbl \<Rightarrow>
             Inr (commit_table w c
                   (put_table time_set time_evict (mds_max_size self) tbl k
                      (dump_json managed_entry k collection) (ttl managed_entry)))))"

definition MultiDiskStore_delete_managed_entry ::
  "world \<Rightarrow> multi_disk_store \<Rightarrow> string \<Rightarrow> string \<Rightarrow> error + world \<times> bool" where
  "MultiDiskStore_delete_managed_entry w self k collection =
     (case MultiDiskStore_conn self collection of
        Inl e \<Rightarrow> Inl e
      | Inr c \<Rightarrow>
         (case conn_table w c of
            Inl e \<Rightarrow> Inl e
          | Inr tbl \<Rightarrow>
             (let (tbl', deleted) = sqlite_delete tbl k
              in Inr (commit_table w c tbl', deleted))))"

section \<open>The eviction pass in the words of the specification\<close>

text \<open>
  The specification describes the pass on the rows in insertion order, oldest first:
  delete all rows whose \<open>expire_at\<close> is set and less than the current time; then, while
  the total size exceeds the bound and rows remain, delete the oldest
  \<open>max(1, floor(row_count / 10))\<close> rows. The total approximate size is the sum of the
  lengths of the key text and of the value text over all rows. The definitions
  \<open>spec_approximate_size\<close>, \<open>spec_expire_sweep\<close>, \<open>spec_proportional_trim\<close> and \<open>spec_evict\<close>
  follow these words; \<open>rows_by_rowid\<close> reads a table in insertion order, which is the
  order of the rowids, and \<open>stored_row\<close> is what the specification calls a stored row.
\<close>

definition rows_by_rowid :: "table \<Rightarrow> table" where
  "rows_by_rowid conn = sort_key rowid conn"

definition stored_row :: "row \<Rightarrow> string \<times> string \<times> real option" where
  "stored_row r = (row_key r, row_value r, expire_at r)"










text \<open>Every row of the table with key \<open>k\<close> holds the value \<open>v\<close> and the expiration \<open>e\<close>.\<close>

definition holds_only :: "table \<Rightarrow> string \<Rightarrow> string \<Rightarrow> real option \<Rightarrow> bool" where
  "holds_only tbl k v e = (\<forall>r \<in> set tbl. row_key r = k \<longrightarrow> row_value r = v \<and> expire_at r = e)"

section \<open>A small world for concrete instances\<close>

text \<open>
  One database file with a given table, one open connection to it supplied by the caller,
  and stand-ins for the serialization adapter: the payload is the stored text itself and
  the time to live of an entry is read from its expiration field.
\<close>

definition example_load_json :: "string \<Rightarrow> (string, real) managed_entry" where
  "example_load_json s = \<lparr>entry_value = s, created_at = None, expires_at = None\<rparr>"

definition example_dump_json :: "(string, real) managed_entry \<Rightarrow> string \<Rightarrow> string \<Rightarrow> string" where
  "example_dump_json m k collection = entry_value m"

definition example_entry :: "string \<Rightarrow> (string, real) managed_entry" where
  "example_entry s = \<lparr>entry_value = s, created_at = None, expires_at = None\<rparr>"

definition example_world :: "table \<Rightarrow> world" where
  "example_world tbl =
     \<lparr>dirs = {[]}, files = (\<lambda>p. if p = [DB_FILENAME] then tbl else []),
      conns = [\<lparr>conn_path = [DB_FILENAME], is_open = True\<rparr>], cwd = []\<rparr>"

definition example_store :: disk_store where
  "example_store = \<lparr>ds_conn = Some 0, ds_client_provided_by_user = True, ds_auto_create = True,
     ds_max_size = None, ds_exit_stack = []\<rparr>"



definition example_parse :: "string \<Rightarrow> path" where
  "example_parse s = [s]"

text \<open>A connection factory as a caller may supply it: it opens a database of its own.\<close>

definition caller_factory :: connection_factory where
  "caller_factory collection w =
     (let (w', c) = create_connection w [collection, DB_FILENAME] in (Inr c, w'))"

text \<open>
  A stand-in for \<^verbatim>\<open>pathvalidate.sanitize_filename\<close> in concrete instances: it deletes the
  characters that are invalid in a file name, as the library does by default. The
  library does more (reserved names, length limits, trailing dots and spaces), none of
  which applies to the short names used here.
\<close>

definition sanitize_filename_model :: "string \<Rightarrow> string" where
  "sanitize_filename_model name =
     filter (\<lambda>ch. ch \<notin> set [CHR ''/'', CHR '':'', CHR ''*'', CHR ''?'', CHR ''<'', CHR ''>'',
                               CHR ''|'', CHR 0x5C, CHR 0x22]) name"

text \<open>
  The router built with \<open>caller_factory\<close>, the same router after \<^verbatim>\<open>_setup\<close> and
  \<^verbatim>\<open>_setup_collection\<close> for the collection \<open>a\<close>, and the world at that point.
\<close>

definition factory_router :: multi_disk_store where
  "factory_router =
     \<lparr>mds_conn = [], mds_connection_factory = caller_factory, mds_base_directory = [],
      mds_max_size = None, mds_auto_create = True, mds_exit_stack = []\<rparr>"

definition factory_router_a :: multi_disk_store where
  "factory_router_a = factory_router\<lparr>mds_conn := [(''a'', 1)], mds_exit_stack := [Sync_close]\<rparr>"

definition factory_world :: world where
  "factory_world = (example_world [])\<lparr>conns :=
      [\<lparr>conn_path = [DB_FILENAME], is_open = True\<rparr>,
       \<lparr>conn_path = [''a'', DB_FILENAME], is_open = True\<rparr>]\<rparr>"

text \<open>
  The router built on the base directory \<open>base\<close>, and the world after it has set up the
  collections \<open>a:b\<close> and \<open>ab\<close>.
\<close>

definition directory_router :: multi_disk_store where
  "directory_router =
     \<lparr>mds_conn = [],
      mds_connection_factory = default_connection_factory sanitize_filename_model [''base''] True,
      mds_base_directory = [''base''], mds_max_size = None, mds_auto_create = True,
      mds_exit_stack = []\<rparr>"

definition directory_world :: world where
  "directory_world = (example_world [])\<lparr>dirs := {[], [''base''], [''base'', ''ab'']}, conns :=
      [\<lparr>conn_path = [DB_FILENAME], is_open = True\<rparr>,
       \<lparr>conn_path = [''base'', ''ab'', DB_FILENAME], is_open = True\<rparr>,
       \<lparr>conn_path = [''base'', ''ab'', DB_FILENAME], is_open = True\<rparr>]\<rparr>"

section \<open>Termination and the size bound\<close>









section \<open>The eviction pass refines its specification\<close>















section \<open>Overwriting a key\<close>

lemma rowid_le_max_rowid: "r \<in> set conn \<Longrightarrow> rowid r \<le> max_rowid conn"
  unfolding max_rowid_def by (induction conn) auto

lemma insort_key_snoc:
  "f y \<le> f x \<Longrightarrow> insort_key f y (ys @ [x]) = insort_key f y ys @ [x]"
  by (induction ys) auto

lemma sort_key_snoc:
  "(\<And>y. y \<in> set xs \<Longrightarrow> f y \<le> f x) \<Longrightarrow> sort_key f (xs @ [x]) = sort_key f xs @ [x]"
proof (induction xs)
  case Nil
  then show ?case by simp
next
  case (Cons a xs)
  then have "sort_key f (xs @ [x]) = sort_key f xs @ [x]" by simp
  moreover from Cons.prems have "f a \<le> f x" by simp
  ultimately show ?case by (simp add: insort_key_snoc)
qed

lemma rows_by_rowid_insert_or_replace:
  "rows_by_rowid (insert_or_replace conn k v e)
     = rows_by_rowid (filter (\<lambda>r. row_key r \<noteq> k) conn)
       @ [\<lparr>rowid = max_rowid conn + 1, row_key = k, row_value = v, expire_at = e\<rparr>]"
  unfolding rows_by_rowid_def insert_or_replace_def
  by (rule sort_key_snoc) (use rowid_le_max_rowid in fastforce)

lemma filter_insert_or_replace_same:
  "filter (\<lambda>r. row_key r = k) (insert_or_replace conn k v e)
     = [\<lparr>rowid = max_rowid conn + 1, row_key = k, row_value = v, expire_at = e\<rparr>]"
  by (simp add: insert_or_replace_def)

lemma filter_insert_or_replace_twice:
  "filter (\<lambda>r. row_key r \<noteq> k) (insert_or_replace conn k v e) = filter (\<lambda>r. row_key r \<noteq> k) conn"
  by (simp add: insert_or_replace_def)

text \<open>
  C3. After two calls of \<^verbatim>\<open>_sqlite_set\<close> with the same key, exactly one row has that key,
  and it holds the value and the \<open>expire_at\<close> of the second call; the stored rows, read in
  insertion order, are those that the second call alone leaves.
\<close>

theorem sqlite_set_twice_replaces:
  "map stored_row
     (filter (\<lambda>r. row_key r = k) (fst (sqlite_set t2 (fst (sqlite_set t1 conn k v1 e1)) k v2 e2)))
     = [(k, v2, case e2 of None \<Rightarrow> None | Some ttl \<Rightarrow> Some (t2 + ttl))]
   \<and> map stored_row (rows_by_rowid (fst (sqlite_set t2 (fst (sqlite_set t1 conn k v1 e1)) k v2 e2)))
     = map stored_row (rows_by_rowid (fst (sqlite_set t2 conn k v2 e2)))"
  by (simp add: sqlite_set_def filter_insert_or_replace_same rows_by_rowid_insert_or_replace
      filter_insert_or_replace_twice stored_row_def)

section \<open>Reading a key\<close>

lemma find_distinct_key:
  "distinct (map row_key conn) \<Longrightarrow> r \<in> set conn \<Longrightarrow> find (\<lambda>x. row_key x = row_key r) conn = Some r"
  by (induction conn) (auto simp: image_iff)

lemma sqlite_get_with_expire_row:
  "distinct (map row_key conn) \<Longrightarrow> r \<in> set conn \<Longrightarrow>
   sqlite_get_with_expire conn (row_key r) = (Some (row_value r), expire_at r)"
  by (simp add: sqlite_get_with_expire_def select_value_expire_at_def find_distinct_key)

lemma find_filter_implied:
  "(\<And>x. P x \<Longrightarrow> Q x) \<Longrightarrow> find P (filter Q xs) = find P xs"
  by (induction xs) auto

lemma find_append_snoc:
  "find P (xs @ [x]) = (case find P xs of Some y \<Rightarrow> Some y | None \<Rightarrow> if P x then Some x else None)"
  by (induction xs) auto

lemma find_filter_excluded:
  "(\<And>x. P x \<Longrightarrow> \<not> Q x) \<Longrightarrow> find P (filter Q xs) = None"
  by (induction xs) auto

lemma get_after_insert_same:
  "sqlite_get_with_expire (insert_or_replace conn k v e) k = (Some v, e)"
  by (simp add: sqlite_get_with_expire_def select_value_expire_at_def insert_or_replace_def
      find_append_snoc find_filter_excluded)

lemma get_after_insert_other:
  assumes "k \<noteq> k'"
  shows "sqlite_get_with_expire (insert_or_replace conn k' v e) k = sqlite_get_with_expire conn k"
proof -
  have "find (\<lambda>r. row_key r = k) (filter (\<lambda>r. row_key r \<noteq> k') conn)
      = find (\<lambda>r. row_key r = k) conn"
    using assms by (intro find_filter_implied) auto
  with assms show ?thesis
    by (simp add: sqlite_get_with_expire_def select_value_expire_at_def insert_or_replace_def
        find_append_snoc split: option.splits)
qed

lemma conn_table_commit:
  "conn_is_open w c \<Longrightarrow> conn_table (commit_table w c tbl) c = Inr tbl"
  by (simp add: conn_table_def commit_table_def conn_is_open_def)

lemma conn_is_open_commit:
  "conn_is_open (commit_table w c tbl) c' = conn_is_open w c'"
  by (simp add: commit_table_def conn_is_open_def)

lemma put_table_no_eviction:
  "\<not> eviction_enabled max_size \<Longrightarrow>
   put_table time_set time_evict max_size tbl k v expire = fst (sqlite_set time_set tbl k v expire)"
  by (simp add: put_table_def sqlite_set_def Let_def)

lemma get_after_commit:
  assumes "ds_conn self = Some c" "conn_is_open w c"
  shows "DiskStore_get_managed_entry load_json fromtimestamp (commit_table w c tbl) self k col
     = Inr (entry_of_row load_json fromtimestamp (sqlite_get_with_expire tbl (compound_key col k)))"
  using assms by (simp add: DiskStore_get_managed_entry_def conn_table_commit)

text \<open>
  C10. \<^verbatim>\<open>_sqlite_get_with_expire\<close> does not look at the clock: for a row whose
  \<open>expire_at\<close> lies before the current time \<open>now\<close> it returns the value of the row together
  with that \<open>expire_at\<close>, and \<^verbatim>\<open>DiskStore._get_managed_entry\<close> returns the entry, not
  \<^verbatim>\<open>None\<close>. Keys are unique in a table (the primary key).
\<close>

theorem get_with_expire_returns_expired_row:
  assumes "distinct (map row_key conn)" and "r \<in> set conn"
    and "expire_at r = Some e" and "e < now"
    and "ds_conn self = Some c" and "conn_table w c = Inr conn"
    and "row_key r = compound_key collection k"
  shows "sqlite_get_with_expire conn (row_key r) = (Some (row_value r), Some e)
     \<and> DiskStore_get_managed_entry load_json fromtimestamp w self k collection
         = Inr (Some (if e \<noteq> 0
                      then (load_json (row_value r))\<lparr>expires_at := Some (fromtimestamp e)\<rparr>
                      else load_json (row_value r)))"
proof -
  from assms(1-3) have "sqlite_get_with_expire conn (row_key r) = (Some (row_value r), Some e)"
    by (simp add: sqlite_get_with_expire_row)
  with assms(5-7) show ?thesis
    by (simp add: DiskStore_get_managed_entry_def entry_of_row_def float_truthy_def Let_def)
qed

theorem get_with_expire_returns_expired_row_witness:
  "(5::real) < 10
   \<and> sqlite_get_with_expire
       [\<lparr>rowid = 1, row_key = ''c::k'', row_value = ''v'', expire_at = Some 5\<rparr>] ''c::k''
     = (Some ''v'', Some 5)
   \<and> DiskStore_get_managed_entry example_load_json id
       (example_world [\<lparr>rowid = 1, row_key = ''c::k'', row_value = ''v'', expire_at = Some 5\<rparr>])
       example_store ''k'' ''c''
     = Inr (Some \<lparr>entry_value = ''v'', created_at = None, expires_at = Some 5\<rparr>)"
  using get_with_expire_returns_expired_row
     [of "[\<lparr>rowid = 1, row_key = ''c::k'', row_value = ''v'', expire_at = Some 5\<rparr>]"
      "\<lparr>rowid = 1, row_key = ''c::k'', row_value = ''v'', expire_at = Some 5\<rparr>" 5 10
      example_store 0
      "example_world [\<lparr>rowid = 1, row_key = ''c::k'', row_value = ''v'', expire_at = Some 5\<rparr>]"
      "''c''" "''k''" example_load_json id]
  by (simp add: example_world_def example_store_def example_load_json_def conn_table_def
      conn_is_open_def compound_key_def separator_def)

text \<open>
  C9, at a row whose \<open>expire_at\<close> column holds 0.0: the column is set, and both stores
  return the entry as \<^verbatim>\<open>load_json\<close> built it, its expiration field not overwritten. The
  condition in the source is \<^verbatim>\<open>if expire_epoch:\<close>, which is false for 0.0 as it is for
  \<^verbatim>\<open>None\<close>.
\<close>

theorem get_managed_entry_expire_at_zero:
  "fst (sqlite_get_with_expire
         [\<lparr>rowid = 1, row_key = ''c::k'', row_value = ''v'', expire_at = Some 0\<rparr>] ''c::k'')
     = Some ''v''
   \<and> snd (sqlite_get_with_expire
         [\<lparr>rowid = 1, row_key = ''c::k'', row_value = ''v'', expire_at = Some 0\<rparr>] ''c::k'')
     = Some 0
   \<and> DiskStore_get_managed_entry example_load_json id
       (example_world [\<lparr>rowid = 1, row_key = ''c::k'', row_value = ''v'', expire_at = Some 0\<rparr>])
       example_store ''k'' ''c''
     = Inr (Some \<lparr>entry_value = ''v'', created_at = None, expires_at = None\<rparr>)
   \<and> entry_of_row example_load_json id (Some ''v'', Some 0)
     = Some \<lparr>entry_value = ''v'', created_at = None, expires_at = None\<rparr>"
  by (simp add: DiskStore_get_managed_entry_def example_world_def example_store_def
      example_load_json_def conn_table_def conn_is_open_def compound_key_def separator_def
      sqlite_get_with_expire_def select_value_expire_at_def entry_of_row_def float_truthy_def)

lemma entry_of_row_overwrites_nonzero:
  "e \<noteq> 0 \<Longrightarrow>
   entry_of_row load_json fromtimestamp (Some s, Some e)
     = Some ((load_json s)\<lparr>expires_at := Some (fromtimestamp e)\<rparr>)"
  by (simp add: entry_of_row_def float_truthy_def)

section \<open>Collections in one database\<close>

lemma compound_key_inject_collection:
  "compound_key a k = compound_key b k \<Longrightarrow> a = b"
  by (simp add: compound_key_def)

lemma evict_loop_subset:
  "set (evict_loop conn max_size total_size) \<subseteq> set conn"
proof (induction conn max_size total_size rule: evict_loop.induct)
  case (1 conn max_size total_size)
  show ?case
  proof (cases "total_size > max_size \<and> count_rows conn \<noteq> 0")
    case False
    then have "evict_loop conn max_size total_size = conn"
      by (subst evict_loop.simps) auto
    then show ?thesis by simp
  next
    case True
    let ?conn' = "delete_rowid_asc_limit conn (max 1 (count_rows conn div 10))"
    from True have "evict_loop conn max_size total_size
        = evict_loop ?conn' max_size (sum_length ?conn')"
      by (subst evict_loop.simps) (simp add: Let_def)
    moreover from True have "set (evict_loop ?conn' max_size (sum_length ?conn')) \<subseteq> set ?conn'"
      by (intro "1.IH") auto
    moreover have "set ?conn' \<subseteq> set conn"
      by (auto simp: delete_rowid_asc_limit_def)
    ultimately show ?thesis by auto
  qed
qed

lemma sqlite_evict_subset: "set (sqlite_evict time_now conn max_size) \<subseteq> set conn"
proof -
  have "set (delete_expired conn time_now) \<subseteq> set conn"
    by (auto simp: delete_expired_def)
  with evict_loop_subset [of "delete_expired conn time_now" max_size] show ?thesis
    unfolding sqlite_evict_def Let_def by blast
qed

lemma put_table_subset:
  "set (put_table ts te max_size tbl k v expire) \<subseteq> set (fst (sqlite_set ts tbl k v expire))"
  using sqlite_evict_subset
  by (auto simp: put_table_def sqlite_set_def Let_def)

lemma holds_only_get:
  "holds_only tbl k v e \<Longrightarrow>
   sqlite_get_with_expire tbl k = (None, None) \<or> sqlite_get_with_expire tbl k = (Some v, e)"
proof -
  assume h: "holds_only tbl k v e"
  show ?thesis
  proof (cases "find (\<lambda>r. row_key r = k) tbl")
    case None
    then show ?thesis
      by (simp add: sqlite_get_with_expire_def select_value_expire_at_def)
  next
    case (Some r)
    then have "r \<in> set tbl" "row_key r = k"
      by (auto simp: find_Some_iff)
    with h have "row_value r = v" "expire_at r = e"
      by (auto simp: holds_only_def)
    with Some show ?thesis
      by (simp add: sqlite_get_with_expire_def select_value_expire_at_def)
  qed
qed

lemma set_sqlite_set:
  "set (fst (sqlite_set ts tbl k v expire))
     = insert \<lparr>rowid = max_rowid tbl + 1, row_key = k, row_value = v,
               expire_at = (case expire of None \<Rightarrow> None | Some ttl \<Rightarrow> Some (ts + ttl))\<rparr>
         {r \<in> set tbl. row_key r \<noteq> k}"
  by (auto simp: sqlite_set_def insert_or_replace_def)

lemma holds_only_put_same:
  "holds_only (put_table ts te max_size tbl k v expire) k v
     (case expire of None \<Rightarrow> None | Some ttl \<Rightarrow> Some (ts + ttl))"
  unfolding holds_only_def
proof (intro ballI impI)
  fix r assume "r \<in> set (put_table ts te max_size tbl k v expire)" and k: "row_key r = k"
  then have "r \<in> set (fst (sqlite_set ts tbl k v expire))"
    using put_table_subset by blast
  with k show "row_value r = v
      \<and> expire_at r = (case expire of None \<Rightarrow> None | Some ttl \<Rightarrow> Some (ts + ttl))"
    unfolding set_sqlite_set by auto
qed

lemma holds_only_put_other:
  assumes "k \<noteq> k'" and "holds_only tbl k v e"
  shows "holds_only (put_table ts te max_size tbl k' v' expire) k v e"
  unfolding holds_only_def
proof (intro ballI impI)
  fix r assume "r \<in> set (put_table ts te max_size tbl k' v' expire)" and k: "row_key r = k"
  then have "r \<in> set (fst (sqlite_set ts tbl k' v' expire))"
    using put_table_subset by blast
  with k assms(1) have "r \<in> set tbl"
    unfolding set_sqlite_set by auto
  with k assms(2) show "row_value r = v \<and> expire_at r = e"
    by (simp add: holds_only_def)
qed

lemma entry_of_row_absent: "entry_of_row load_json fromtimestamp (None, None) = None"
  by (simp add: entry_of_row_def)

lemma store_isolation:
  assumes "a \<noteq> b" "ds_conn self = Some c" "conn_is_open w c"
  shows "\<exists>w1 w2.
       DiskStore_put_managed_entry dump_json ttl t1 t1' w self k a m1 = Inr w1
     \<and> DiskStore_put_managed_entry dump_json ttl t2 t2' w1 self k b m2 = Inr w2
     \<and> DiskStore_get_managed_entry load_json fromtimestamp w2 self k a
         \<in> {Inr None, Inr (entry_of_row load_json fromtimestamp
             (Some (dump_json m1 k a), case ttl m1 of None \<Rightarrow> None | Some x \<Rightarrow> Some (t1 + x)))}
     \<and> DiskStore_get_managed_entry load_json fromtimestamp w2 self k b
         \<in> {Inr None, Inr (entry_of_row load_json fromtimestamp
             (Some (dump_json m2 k b), case ttl m2 of None \<Rightarrow> None | Some x \<Rightarrow> Some (t2 + x)))}
     \<and> (\<not> eviction_enabled (ds_max_size self) \<longrightarrow>
          DiskStore_get_managed_entry load_json fromtimestamp w2 self k a
            = Inr (entry_of_row load_json fromtimestamp
                (Some (dump_json m1 k a), case ttl m1 of None \<Rightarrow> None | Some x \<Rightarrow> Some (t1 + x)))
        \<and> DiskStore_get_managed_entry load_json fromtimestamp w2 self k b
            = Inr (entry_of_row load_json fromtimestamp
                (Some (dump_json m2 k b), case ttl m2 of None \<Rightarrow> None | Some x \<Rightarrow> Some (t2 + x))))"
proof -
  from assms(1) have ne: "compound_key a k \<noteq> compound_key b k"
    using compound_key_inject_collection by blast
  let ?tbl = "files w (conn_path (conns w ! c))"
  let ?tbl1 = "put_table t1 t1' (ds_max_size self) ?tbl (compound_key a k) (dump_json m1 k a) (ttl m1)"
  let ?w1 = "commit_table w c ?tbl1"
  let ?tbl2 = "put_table t2 t2' (ds_max_size self) ?tbl1 (compound_key b k) (dump_json m2 k b) (ttl m2)"
  let ?w2 = "commit_table ?w1 c ?tbl2"
  let ?e1 = "case ttl m1 of None \<Rightarrow> None | Some x \<Rightarrow> Some (t1 + x)"
  let ?e2 = "case ttl m2 of None \<Rightarrow> None | Some x \<Rightarrow> Some (t2 + x)"
  from assms(3) have t0: "conn_table w c = Inr ?tbl" by (simp add: conn_table_def)
  have o1: "conn_is_open ?w1 c" using assms(3) by (simp add: conn_is_open_commit)
  have p1: "DiskStore_put_managed_entry dump_json ttl t1 t1' w self k a m1 = Inr ?w1"
    using assms(2) t0 by (simp add: DiskStore_put_managed_entry_def)
  have p2: "DiskStore_put_managed_entry dump_json ttl t2 t2' ?w1 self k b m2 = Inr ?w2"
    using assms(2) assms(3) by (simp add: DiskStore_put_managed_entry_def conn_table_commit)
  have "holds_only ?tbl1 (compound_key a k) (dump_json m1 k a) ?e1"
    by (rule holds_only_put_same)
  with ne have "holds_only ?tbl2 (compound_key a k) (dump_json m1 k a) ?e1"
    by (rule holds_only_put_other)
  then have ga: "sqlite_get_with_expire ?tbl2 (compound_key a k) = (None, None)
      \<or> sqlite_get_with_expire ?tbl2 (compound_key a k) = (Some (dump_json m1 k a), ?e1)"
    by (rule holds_only_get)
  have "holds_only ?tbl2 (compound_key b k) (dump_json m2 k b) ?e2"
    by (rule holds_only_put_same)
  then have gb: "sqlite_get_with_expire ?tbl2 (compound_key b k) = (None, None)
      \<or> sqlite_get_with_expire ?tbl2 (compound_key b k) = (Some (dump_json m2 k b), ?e2)"
    by (rule holds_only_get)
  have xa: "sqlite_get_with_expire ?tbl2 (compound_key a k) = (Some (dump_json m1 k a), ?e1)"
    if "\<not> eviction_enabled (ds_max_size self)"
    using ne that
    by (simp add: put_table_no_eviction sqlite_set_def get_after_insert_other get_after_insert_same)
  have xb: "sqlite_get_with_expire ?tbl2 (compound_key b k) = (Some (dump_json m2 k b), ?e2)"
    if "\<not> eviction_enabled (ds_max_size self)"
    using that
    by (simp add: put_table_no_eviction sqlite_set_def get_after_insert_same)
  have ra: "DiskStore_get_managed_entry load_json fromtimestamp ?w2 self k a
      = Inr (entry_of_row load_json fromtimestamp (sqlite_get_with_expire ?tbl2 (compound_key a k)))"
    using assms(2) o1 by (rule get_after_commit)
  have rb: "DiskStore_get_managed_entry load_json fromtimestamp ?w2 self k b
      = Inr (entry_of_row load_json fromtimestamp (sqlite_get_with_expire ?tbl2 (compound_key b k)))"
    using assms(2) o1 by (rule get_after_commit)
  from ga have "DiskStore_get_managed_entry load_json fromtimestamp ?w2 self k a
      \<in> {Inr None, Inr (entry_of_row load_json fromtimestamp (Some (dump_json m1 k a), ?e1))}"
    unfolding ra by (auto simp: entry_of_row_absent)
  moreover from gb have "DiskStore_get_managed_entry load_json fromtimestamp ?w2 self k b
      \<in> {Inr None, Inr (entry_of_row load_json fromtimestamp (Some (dump_json m2 k b), ?e2))}"
    unfolding rb by (auto simp: entry_of_row_absent)
  moreover have "\<not> eviction_enabled (ds_max_size self) \<longrightarrow>
          DiskStore_get_managed_entry load_json fromtimestamp ?w2 self k a
            = Inr (entry_of_row load_json fromtimestamp (Some (dump_json m1 k a), ?e1))
        \<and> DiskStore_get_managed_entry load_json fromtimestamp ?w2 self k b
            = Inr (entry_of_row load_json fromtimestamp (Some (dump_json m2 k b), ?e2))"
    unfolding ra rb using xa xb by simp
  ultimately show ?thesis using p1 p2 by blast
qed

text \<open>
  C4. For distinct collections \<open>a\<close> and \<open>b\<close> and any key \<open>k\<close> the combined keys differ,
  so \<^verbatim>\<open>_sqlite_set\<close> on the two combined keys writes two rows, and
  \<^verbatim>\<open>_sqlite_get_with_expire\<close> on each combined key returns the value set for it. Through
  the disk store the two puts succeed, and \<^verbatim>\<open>_get_managed_entry\<close> returns for each
  collection the entry loaded from its own value: always so when no size bound is
  configured, and otherwise unless the eviction pass has removed the row, in which case
  it returns \<^verbatim>\<open>None\<close>; it never returns the entry of the other collection.
\<close>

theorem namespace_isolation:
  assumes "a \<noteq> b"
  shows "compound_key a k \<noteq> compound_key b k
    \<and> (let conn1 = fst (sqlite_set t1 conn (compound_key a k) v1 e1);
            conn2 = fst (sqlite_set t2 conn1 (compound_key b k) v2 e2)
        in fst (sqlite_get_with_expire conn2 (compound_key a k)) = Some v1
         \<and> fst (sqlite_get_with_expire conn2 (compound_key b k)) = Some v2
         \<and> length (filter (\<lambda>r. row_key r = compound_key a k) conn2) = 1
         \<and> length (filter (\<lambda>r. row_key r = compound_key b k) conn2) = 1)
    \<and> (ds_conn self = Some c \<and> conn_is_open w c \<longrightarrow>
        (\<exists>w1 w2.
           DiskStore_put_managed_entry dump_json ttl t1 t1' w self k a m1 = Inr w1
         \<and> DiskStore_put_managed_entry dump_json ttl t2 t2' w1 self k b m2 = Inr w2
         \<and> DiskStore_get_managed_entry load_json fromtimestamp w2 self k a
             \<in> {Inr None, Inr (entry_of_row load_json fromtimestamp
                 (Some (dump_json m1 k a), case ttl m1 of None \<Rightarrow> None | Some x \<Rightarrow> Some (t1 + x)))}
         \<and> DiskStore_get_managed_entry load_json fromtimestamp w2 self k b
             \<in> {Inr None, Inr (entry_of_row load_json fromtimestamp
                 (Some (dump_json m2 k b), case ttl m2 of None \<Rightarrow> None | Some x \<Rightarrow> Some (t2 + x)))}
         \<and> (\<not> eviction_enabled (ds_max_size self) \<longrightarrow>
              DiskStore_get_managed_entry load_json fromtimestamp w2 self k a
                = Inr (entry_of_row load_json fromtimestamp
                    (Some (dump_json m1 k a), case ttl m1 of None \<Rightarrow> None | Some x \<Rightarrow> Some (t1 + x)))
            \<and> DiskStore_get_managed_entry load_json fromtimestamp w2 self k b
                = Inr (entry_of_row load_json fromtimestamp
                    (Some (dump_json m2 k b), case ttl m2 of None \<Rightarrow> None | Some x \<Rightarrow> Some (t2 + x))))))"
proof -
  from assms have ne: "compound_key a k \<noteq> compound_key b k"
    using compound_key_inject_collection by blast
  then have "let conn1 = fst (sqlite_set t1 conn (compound_key a k) v1 e1);
            conn2 = fst (sqlite_set t2 conn1 (compound_key b k) v2 e2)
        in fst (sqlite_get_with_expire conn2 (compound_key a k)) = Some v1
         \<and> fst (sqlite_get_with_expire conn2 (compound_key b k)) = Some v2
         \<and> length (filter (\<lambda>r. row_key r = compound_key a k) conn2) = 1
         \<and> length (filter (\<lambda>r. row_key r = compound_key b k) conn2) = 1"
    by (simp add: Let_def sqlite_set_def get_after_insert_same get_after_insert_other)
      (auto simp add: insert_or_replace_def filter_empty_conv)
  with ne store_isolation [OF assms] show ?thesis
    by blast
qed

theorem namespace_isolation_witness:
  "''A'' \<noteq> ''B''
   \<and> fst (sqlite_get_with_expire
        (fst (sqlite_set 2 (fst (sqlite_set 1 [] (compound_key ''A'' ''k'') ''v1'' None))
           (compound_key ''B'' ''k'') ''v2'' None))
        (compound_key ''A'' ''k'')) = Some ''v1''
   \<and> fst (sqlite_get_with_expire
        (fst (sqlite_set 2 (fst (sqlite_set 1 [] (compound_key ''A'' ''k'') ''v1'' None))
           (compound_key ''B'' ''k'') ''v2'' None))
        (compound_key ''B'' ''k'')) = Some ''v2''
   \<and> ds_conn example_store = Some 0 \<and> conn_is_open (example_world []) 0
   \<and> \<not> eviction_enabled (ds_max_size example_store)
   \<and> (\<exists>w1 w2.
         DiskStore_put_managed_entry example_dump_json expires_at 1 1 (example_world [])
           example_store ''k'' ''A'' (example_entry ''v1'') = Inr w1
       \<and> DiskStore_put_managed_entry example_dump_json expires_at 2 2 w1
           example_store ''k'' ''B'' (example_entry ''v2'') = Inr w2
       \<and> DiskStore_get_managed_entry example_load_json id w2 example_store ''k'' ''A''
           = Inr (Some (example_entry ''v1''))
       \<and> DiskStore_get_managed_entry example_load_json id w2 example_store ''k'' ''B''
           = Inr (Some (example_entry ''v2'')))"
proof -
  have h: "''A'' \<noteq> ''B''" by simp
  have s: "ds_conn example_store = Some 0 \<and> conn_is_open (example_world []) 0
      \<and> \<not> eviction_enabled (ds_max_size example_store)"
    by (simp add: example_store_def example_world_def conn_is_open_def eviction_enabled_def)
  from namespace_isolation [OF h, of "''k''" 1 "[]" "''v1''" None 2 "''v2''" None
      example_store 0 "example_world []" example_dump_json expires_at 1 "example_entry ''v1''"
      2 "example_entry ''v2''" example_load_json id] s h
  show ?thesis
    by (auto simp: Let_def entry_of_row_def float_truthy_def example_entry_def
        example_dump_json_def example_load_json_def)
qed

section \<open>Construction\<close>

lemma init_rejects:
  "DiskStore_init parse w (Some c) (Some d) max_size auto_create
     = (Inl (ValueError ''Provide only one of connection or directory''), w)"
  "DiskStore_init parse w None None max_size auto_create
     = (Inl (ValueError ''Either connection or directory must be provided''), w)"
  "MultiDiskStore_init sanitize w None None max_size auto_create
     = Inl (ValueError ''Either connection_factory or base_directory must be provided'')"
  by (simp_all add: DiskStore_init_def MultiDiskStore_init_def)

text \<open>
  C7, at a call that supplies both a connection factory and a base directory: the
  constructor of the multi-disk store raises nothing. It returns a store that uses the
  factory; the base directory is kept and never read.
\<close>

theorem MultiDiskStore_init_accepts_both_sources:
  "MultiDiskStore_init sanitize w (Some f) (Some base) max_size auto_create
     = Inr \<lparr>mds_conn = [], mds_connection_factory = f, mds_base_directory = base,
            mds_max_size = max_size, mds_auto_create = auto_create, mds_exit_stack = []\<rparr>"
  by (simp add: MultiDiskStore_init_def)

section \<open>Missing directories\<close>

lemma DiskStore_init_missing_directory:
  assumes "directory_truthy d" and "\<not> path_exists w (Path parse d)"
  shows "DiskStore_init parse w None (Some d) max_size False
       = (Inl (ValueError ''Directory does not exist. Either create the directory manually or set auto_create=True.''), w)"
    and "\<exists>self w'. DiskStore_init parse w None (Some d) max_size True = (Inr self, w')
          \<and> dirs w' = dirs w \<union> set (prefixes (Path parse d))"
  using assms
  by (simp_all add: DiskStore_init_def Let_def create_connection_def mkdir_parents_def)

lemma default_connection_factory_missing_directory:
  assumes "\<not> path_exists w (path_join base (sanitize collection))"
  shows "default_connection_factory sanitize base False collection w
       = (Inl (ValueError ''Directory does not exist. Either create the directory manually or set auto_create=True.''), w)"
    and "\<exists>c w'. default_connection_factory sanitize base True collection w = (Inr c, w')
          \<and> dirs w' = dirs w \<union> set (prefixes (path_join base (sanitize collection)))"
  using assms
  by (simp_all add: default_connection_factory_def sanitize_collection_for_filesystem_def Let_def
      create_connection_def mkdir_parents_def)

text \<open>
  C8. When the target directory does not exist: with \<open>auto_create = False\<close> the
  constructor of the disk store raises \<^verbatim>\<open>ValueError\<close> and leaves the world as it was, so the
  directory is not created; with \<open>auto_create = True\<close> it succeeds and the directory exists
  afterwards together with every directory above it. The multi-disk store does the same
  for the directory of a collection, when the collection is set up. The directory
  argument is a \<^verbatim>\<open>Path\<close> or a non-empty string.
\<close>

theorem missing_directory_auto_create:
  assumes "directory_truthy d" and "\<not> path_exists w (Path parse d)"
    and "\<not> path_exists w (path_join base (sanitize collection))"
  shows "(\<exists>msg. DiskStore_init parse w None (Some d) max_size False = (Inl (ValueError msg), w))
     \<and> (\<exists>self w'. DiskStore_init parse w None (Some d) max_size True = (Inr self, w')
           \<and> dirs w' = dirs w \<union> set (prefixes (Path parse d))
           \<and> (\<forall>q. prefix q (Path parse d) \<longrightarrow> path_exists w' q))
     \<and> (\<exists>self msg. MultiDiskStore_init sanitize w None (Some base) max_size False = Inr self
           \<and> MultiDiskStore_setup_collection w self collection = (Inl (ValueError msg), w))
     \<and> (\<exists>self self' w'. MultiDiskStore_init sanitize w None (Some base) max_size True = Inr self
           \<and> MultiDiskStore_setup_collection w self collection = (Inr self', w')
           \<and> dirs w' = dirs w \<union> set (prefixes (path_join base (sanitize collection)))
           \<and> (\<forall>q. prefix q (path_join base (sanitize collection)) \<longrightarrow> path_exists w' q))"
proof -
  note d = DiskStore_init_missing_directory [OF assms(1,2), of max_size]
  note m = default_connection_factory_missing_directory
    [where w = w and base = base and sanitize = sanitize and collection = collection,
     OF assms(3)]
  have 1: "\<exists>msg. DiskStore_init parse w None (Some d) max_size False = (Inl (ValueError msg), w)"
    using d(1) by blast
  have 2: "\<exists>self w'. DiskStore_init parse w None (Some d) max_size True = (Inr self, w')
           \<and> dirs w' = dirs w \<union> set (prefixes (Path parse d))
           \<and> (\<forall>q. prefix q (Path parse d) \<longrightarrow> path_exists w' q)"
    using d(2) by (auto simp: path_exists_def)
  have 3: "\<exists>self msg. MultiDiskStore_init sanitize w None (Some base) max_size False = Inr self
           \<and> MultiDiskStore_setup_collection w self collection = (Inl (ValueError msg), w)"
    using m(1) by (simp add: MultiDiskStore_init_def MultiDiskStore_setup_collection_def)
  from m(2) obtain c w' where f: "default_connection_factory sanitize base True collection w = (Inr c, w')"
      and dw: "dirs w' = dirs w \<union> set (prefixes (path_join base (sanitize collection)))"
    by blast
  have 4: "\<exists>self self' w'. MultiDiskStore_init sanitize w None (Some base) max_size True = Inr self
           \<and> MultiDiskStore_setup_collection w self collection = (Inr self', w')
           \<and> dirs w' = dirs w \<union> set (prefixes (path_join base (sanitize collection)))
           \<and> (\<forall>q. prefix q (path_join base (sanitize collection)) \<longrightarrow> path_exists w' q)"
    using f dw by (simp add: MultiDiskStore_init_def MultiDiskStore_setup_collection_def path_exists_def)
  from 1 2 3 4 show ?thesis by blast
qed

theorem missing_directory_auto_create_witness:
  "directory_truthy (PathArg [''data'', ''kv''])
   \<and> \<not> path_exists (example_world []) (Path example_parse (PathArg [''data'', ''kv'']))
   \<and> \<not> path_exists (example_world []) (path_join [''base''] (id ''c''))
   \<and> (\<exists>msg. DiskStore_init example_parse (example_world []) None (Some (PathArg [''data'', ''kv''])) None False
          = (Inl (ValueError msg), example_world []))
   \<and> (\<exists>self w'. DiskStore_init example_parse (example_world []) None (Some (PathArg [''data'', ''kv''])) None True
          = (Inr self, w') \<and> dirs w' = {[], [''data''], [''data'', ''kv'']})"
proof -
  have h: "directory_truthy (PathArg [''data'', ''kv''])"
    "\<not> path_exists (example_world []) (Path example_parse (PathArg [''data'', ''kv'']))"
    "\<not> path_exists (example_world []) (path_join [''base''] (id ''c''))"
    by (simp_all add: directory_truthy_def path_exists_def example_world_def Path_def path_join_def)
  have p: "set (prefixes [''data'', ''kv'']) = {[], [''data''], [''data'', ''kv'']}"
    by auto
  from missing_directory_auto_create [where d = "PathArg [''data'', ''kv'']" and w = "example_world []"
      and parse = example_parse and base = "[''base'']" and sanitize = id
      and collection = "''c''" and max_size = None, OF h] h p
  show ?thesis
    by (auto simp: Path_def example_world_def)
qed


section \<open>Teardown\<close>

lemma not_open_after_close: "\<not> conn_is_open (sqlite_close w c) c"
  by (simp add: conn_is_open_def sqlite_close_def)

lemma closed_stays_closed:
  "\<not> conn_is_open w c \<Longrightarrow> \<not> conn_is_open (sqlite_close w c') c"
  by (auto simp: conn_is_open_def sqlite_close_def nth_list_update)

lemma fold_close_keeps_closed:
  "\<not> conn_is_open w c \<Longrightarrow> \<not> conn_is_open (fold (\<lambda>c w'. sqlite_close w' c) cs w) c"
  by (induction cs arbitrary: w) (simp_all add: closed_stays_closed)

lemma fold_close_closes:
  "c \<in> set cs \<Longrightarrow> \<not> conn_is_open (fold (\<lambda>c w'. sqlite_close w' c) cs w) c"
proof (induction cs arbitrary: w)
  case Nil
  then show ?case by simp
next
  case (Cons a cs)
  show ?case
  proof (cases "c = a")
    case True
    then show ?thesis
      using fold_close_keeps_closed [OF not_open_after_close] by simp
  next
    case False
    with Cons show ?thesis by simp
  qed
qed

lemma sync_close_closes:
  "map_of (mds_conn self) collection = Some c \<Longrightarrow>
   \<not> conn_is_open (MultiDiskStore_sync_close w self) c"
  unfolding MultiDiskStore_sync_close_def
  by (rule fold_close_closes) (metis map_of_SomeD snd_conv image_eqI set_map)

lemma sync_close_keeps_closed:
  "\<not> conn_is_open w c \<Longrightarrow> \<not> conn_is_open (MultiDiskStore_sync_close w self) c"
  unfolding MultiDiskStore_sync_close_def by (rule fold_close_keeps_closed)

lemma MultiDiskStore_callback_simps:
  "MultiDiskStore_callback self Sync_close w = MultiDiskStore_sync_close w self"
  "MultiDiskStore_callback self Close_conn w = w"
  by (simp_all add: MultiDiskStore_callback_def)

lemma callbacks_keep_closed:
  "\<not> conn_is_open w c \<Longrightarrow> \<not> conn_is_open (fold (MultiDiskStore_callback self) cbs w) c"
  by (induction cbs arbitrary: w)
    (auto simp: MultiDiskStore_callback_def sync_close_keeps_closed split: callback.splits)

lemma teardown_closes:
  assumes "map_of (mds_conn self) collection = Some c" and "Sync_close \<in> set (mds_exit_stack self)"
  shows "\<not> conn_is_open (MultiDiskStore_teardown w self) c"
proof -
  have "\<not> conn_is_open (fold (MultiDiskStore_callback self) cbs w) c"
    if "Sync_close \<in> set cbs" for cbs w
    using that
  proof (induction cbs arbitrary: w)
    case Nil
    then show ?case by simp
  next
    case (Cons cb cbs)
    show ?case
    proof (cases cb)
      case Close_conn
      with Cons show ?thesis by (simp add: MultiDiskStore_callback_simps)
    next
      case Sync_close
      then show ?thesis
        using callbacks_keep_closed [OF sync_close_closes [OF assms(1)], of self cbs w]
        by (simp add: MultiDiskStore_callback_simps)
    qed
  qed
  with assms(2) show ?thesis by (simp add: MultiDiskStore_teardown_def)
qed

text \<open>
  C5, as amended. A disk store built on a connection supplied by the caller never closes
  it: neither the callbacks run at teardown nor \<^verbatim>\<open>__del__\<close> change the world. The
  multi-disk store keeps no record of who made a connection: a connection that a
  factory supplied by the caller returned is in the cache after \<^verbatim>\<open>_setup_collection\<close>, and
  it is closed after teardown and after \<^verbatim>\<open>__del__\<close>.
\<close>

theorem teardown_ownership:
  assumes "f collection w = (Inr h, w')"
  shows "(\<exists>self. DiskStore_init parse w0 (Some c) None max_size auto_create = (Inr self, w0)
            \<and> DiskStore_teardown w2 (DiskStore_setup self) = w2
            \<and> DiskStore_del w2 self = w2)
     \<and> (\<exists>self self'.
            MultiDiskStore_init sanitize w0 (Some f) base max_size auto_create = Inr self
          \<and> MultiDiskStore_setup_collection w (MultiDiskStore_setup self) collection = (Inr self', w')
          \<and> map_of (mds_conn self') collection = Some h
          \<and> \<not> conn_is_open (MultiDiskStore_teardown w' self') h
          \<and> \<not> conn_is_open (MultiDiskStore_del w' self') h)"
proof -
  have d: "\<exists>self. DiskStore_init parse w0 (Some c) None max_size auto_create = (Inr self, w0)
            \<and> DiskStore_teardown w2 (DiskStore_setup self) = w2
            \<and> DiskStore_del w2 self = w2"
    by (simp add: DiskStore_init_def DiskStore_setup_def DiskStore_teardown_def DiskStore_del_def)
  let ?self = "\<lparr>mds_conn = [], mds_connection_factory = f,
      mds_base_directory = (case base of None \<Rightarrow> cwd w0 | Some b \<Rightarrow> b),
      mds_max_size = max_size, mds_auto_create = auto_create, mds_exit_stack = []\<rparr>"
  let ?self' = "(MultiDiskStore_setup ?self)\<lparr>mds_conn := [(collection, h)]\<rparr>"
  have i: "MultiDiskStore_init sanitize w0 (Some f) base max_size auto_create = Inr ?self"
    by (simp add: MultiDiskStore_init_def)
  have sc: "MultiDiskStore_setup_collection w (MultiDiskStore_setup ?self) collection = (Inr ?self', w')"
    using assms by (simp add: MultiDiskStore_setup_collection_def MultiDiskStore_setup_def)
  have m: "map_of (mds_conn ?self') collection = Some h" by simp
  have st: "Sync_close \<in> set (mds_exit_stack ?self')" by (simp add: MultiDiskStore_setup_def)
  have "\<not> conn_is_open (MultiDiskStore_teardown w' ?self') h"
    using teardown_closes [OF m st] .
  moreover have "\<not> conn_is_open (MultiDiskStore_del w' ?self') h"
    unfolding MultiDiskStore_del_def using sync_close_closes [OF m] .
  ultimately show ?thesis using d i sc m by blast
qed

theorem teardown_ownership_witness:
  "caller_factory ''a'' (example_world []) = (Inr 1, factory_world)
   \<and> (\<exists>self. DiskStore_init example_parse (example_world []) (Some 0) None None True
          = (Inr self, example_world [])
        \<and> DiskStore_teardown (example_world []) (DiskStore_setup self) = example_world []
        \<and> conn_is_open (DiskStore_teardown (example_world []) (DiskStore_setup self)) 0)
   \<and> (\<exists>self self'.
          MultiDiskStore_init id (example_world []) (Some caller_factory) None None True = Inr self
        \<and> MultiDiskStore_setup_collection (example_world []) (MultiDiskStore_setup self) ''a''
            = (Inr self', factory_world)
        \<and> map_of (mds_conn self') ''a'' = Some 1
        \<and> \<not> conn_is_open (MultiDiskStore_teardown factory_world self') 1)"
proof -
  have h: "caller_factory ''a'' (example_world []) = (Inr 1, factory_world)"
    by (simp add: caller_factory_def create_connection_def example_world_def factory_world_def)
  have o: "conn_is_open (example_world []) 0"
    by (simp add: conn_is_open_def example_world_def)
  from teardown_ownership [where f = caller_factory and collection = "''a''"
      and w = "example_world []" and h = 1 and w' = factory_world and parse = example_parse
      and ?w0.0 = "example_world []" and c = 0 and max_size = None and auto_create = True
      and ?w2.0 = "example_world []" and sanitize = id and base = None, OF h] h o
  show ?thesis by auto
qed

text \<open>
  C5, as stated, fails for the multi-disk store: the connection 1 comes from the factory
  of the caller, it is open before teardown and closed after it.
\<close>

theorem factory_connection_closed_by_teardown:
  "MultiDiskStore_init id (example_world []) (Some caller_factory) None None True
     = Inr factory_router
   \<and> MultiDiskStore_setup_collection (example_world []) (MultiDiskStore_setup factory_router) ''a''
     = (Inr factory_router_a, factory_world)
   \<and> conn_is_open factory_world 1
   \<and> \<not> conn_is_open (MultiDiskStore_teardown factory_world factory_router_a) 1
   \<and> \<not> conn_is_open (MultiDiskStore_del factory_world factory_router_a) 1"
  by (simp add: MultiDiskStore_init_def MultiDiskStore_setup_def MultiDiskStore_setup_collection_def
      factory_router_def factory_router_a_def caller_factory_def
      create_connection_def example_world_def factory_world_def conn_is_open_def
      MultiDiskStore_teardown_def MultiDiskStore_callback_def MultiDiskStore_sync_close_def
      MultiDiskStore_del_def sqlite_close_def)

section \<open>The cache of the router\<close>

lemma default_connection_factory_auto_create:
  "\<exists>w'. default_connection_factory sanitize base True collection w = (Inr (length (conns w)), w')
     \<and> conns w' = conns w @ [\<lparr>conn_path = path_join (path_join base (sanitize collection)) DB_FILENAME,
                                is_open = True\<rparr>]"
  by (simp add: default_connection_factory_def sanitize_collection_for_filesystem_def Let_def
      create_connection_def mkdir_parents_def)

text \<open>
  C6, as amended. The cache of the router is keyed by the collection name as given, not
  by its sanitized form: two distinct names that sanitize to the same string get two
  handles, both open, both on the same database file, and a later reference to either
  name finds its own cached handle.
\<close>

theorem router_handle_per_collection_name:
  assumes "a \<noteq> b" and "sanitize a = sanitize b"
  shows "\<exists>self0 self1 self2 w1 w2.
      MultiDiskStore_init sanitize w None (Some base) max_size True = Inr self0
    \<and> MultiDiskStore_setup_collection w self0 a = (Inr self1, w1)
    \<and> MultiDiskStore_setup_collection w1 self1 b = (Inr self2, w2)
    \<and> mds_conn self2 = [(a, length (conns w)), (b, length (conns w) + 1)]
    \<and> MultiDiskStore_conn self2 a = Inr (length (conns w))
    \<and> MultiDiskStore_conn self2 b = Inr (length (conns w) + 1)
    \<and> conn_is_open w2 (length (conns w)) \<and> conn_is_open w2 (length (conns w) + 1)
    \<and> conn_path (conns w2 ! length (conns w)) = conn_path (conns w2 ! (length (conns w) + 1))"
proof -
  let ?f = "default_connection_factory sanitize base True"
  let ?self0 = "\<lparr>mds_conn = [], mds_connection_factory = ?f, mds_base_directory = base,
      mds_max_size = max_size, mds_auto_create = True, mds_exit_stack = []\<rparr>"
  let ?n = "length (conns w)"
  let ?p = "path_join (path_join base (sanitize a)) DB_FILENAME"
  have i: "MultiDiskStore_init sanitize w None (Some base) max_size True = Inr ?self0"
    by (simp add: MultiDiskStore_init_def)
  obtain w1 where f1: "?f a w = (Inr ?n, w1)"
    and c1: "conns w1 = conns w @ [\<lparr>conn_path = ?p, is_open = True\<rparr>]"
    using default_connection_factory_auto_create [of sanitize base a w] by blast
  obtain w2 where f2: "?f b w1 = (Inr (length (conns w1)), w2)"
    and c2: "conns w2 = conns w1 @ [\<lparr>conn_path = ?p, is_open = True\<rparr>]"
    using default_connection_factory_auto_create [of sanitize base b w1] assms(2) by auto
  let ?self1 = "?self0\<lparr>mds_conn := [(a, ?n)]\<rparr>"
  let ?self2 = "?self0\<lparr>mds_conn := [(a, ?n), (b, ?n + 1)]\<rparr>"
  have s1: "MultiDiskStore_setup_collection w ?self0 a = (Inr ?self1, w1)"
    using f1 by (simp add: MultiDiskStore_setup_collection_def)
  have s2: "MultiDiskStore_setup_collection w1 ?self1 b = (Inr ?self2, w2)"
    using f2 c1 assms(1) by (simp add: MultiDiskStore_setup_collection_def)
  have l: "MultiDiskStore_conn ?self2 a = Inr ?n" "MultiDiskStore_conn ?self2 b = Inr (?n + 1)"
    using assms(1) by (simp_all add: MultiDiskStore_conn_def)
  have o: "conn_is_open w2 ?n" "conn_is_open w2 (?n + 1)"
    "conn_path (conns w2 ! ?n) = conn_path (conns w2 ! (?n + 1))"
    using c1 c2 by (simp_all add: conn_is_open_def nth_append)
  from i s1 s2 l o show ?thesis
    by (intro exI [of _ ?self0] exI [of _ ?self1] exI [of _ ?self2] exI [of _ w1] exI [of _ w2]) simp
qed

theorem router_handle_per_collection_name_witness:
  "''a:b'' \<noteq> ''ab'' \<and> sanitize_filename_model ''a:b'' = sanitize_filename_model ''ab''
   \<and> (\<exists>self0 self1 self2 w1 w2.
        MultiDiskStore_init sanitize_filename_model (example_world []) None (Some [''base'']) None True
          = Inr self0
      \<and> MultiDiskStore_setup_collection (example_world []) self0 ''a:b'' = (Inr self1, w1)
      \<and> MultiDiskStore_setup_collection w1 self1 ''ab'' = (Inr self2, w2)
      \<and> mds_conn self2 = [(''a:b'', 1), (''ab'', 2)]
      \<and> conn_is_open w2 1 \<and> conn_is_open w2 2
      \<and> conn_path (conns w2 ! 1) = conn_path (conns w2 ! 2))"
proof -
  have h: "''a:b'' \<noteq> ''ab''" "sanitize_filename_model ''a:b'' = sanitize_filename_model ''ab''"
    by (simp_all add: sanitize_filename_model_def)
  have n: "length (conns (example_world [])) = 1"
    by (simp add: example_world_def)
  from router_handle_per_collection_name [where a = "''a:b''" and b = "''ab''"
      and sanitize = sanitize_filename_model and w = "example_world []" and base = "[''base'']"
      and max_size = None, OF h] h
  show ?thesis unfolding n by (auto simp: numeral_2_eq_2)
qed

text \<open>
  C6, as stated, fails: the names \<open>a:b\<close> and \<open>ab\<close> sanitize to the same string, and after
  both are set up the router holds the two handles 1 and 2 for it, each open on the file
  \<open>base/ab/store.db\<close>.
\<close>

theorem same_sanitized_name_two_handles:
  "''a:b'' \<noteq> ''ab''
   \<and> sanitize_filename_model ''a:b'' = ''ab'' \<and> sanitize_filename_model ''ab'' = ''ab''
   \<and> MultiDiskStore_init sanitize_filename_model (example_world []) None (Some [''base'']) None True
       = Inr directory_router
   \<and> fst (MultiDiskStore_setup_collection
         (snd (MultiDiskStore_setup_collection (example_world []) directory_router ''a:b''))
         (projr (fst (MultiDiskStore_setup_collection (example_world []) directory_router ''a:b'')))
         ''ab'')
       = Inr (directory_router\<lparr>mds_conn := [(''a:b'', 1), (''ab'', 2)]\<rparr>)
   \<and> snd (MultiDiskStore_setup_collection
         (snd (MultiDiskStore_setup_collection (example_world []) directory_router ''a:b''))
         (projr (fst (MultiDiskStore_setup_collection (example_world []) directory_router ''a:b'')))
         ''ab'')
       = directory_world
   \<and> conn_is_open directory_world 1 \<and> conn_is_open directory_world 2"
  apply (simp add: sanitize_filename_model_def MultiDiskStore_init_def directory_router_def)
  apply (simp add: MultiDiskStore_setup_collection_def default_connection_factory_def
      sanitize_collection_for_filesystem_def sanitize_filename_model_def path_join_def
      path_exists_def example_world_def mkdir_parents_def create_connection_def Let_def
      directory_world_def conn_is_open_def DB_FILENAME_def)
  by auto


end
